theory Spec2Isabelle
  imports Main
begin

section \<open>cmd/fscrypt/errors.go: error values, suggestions and usage errors\<close>

text \<open>
  A shallow embedding of \<^verbatim>\<open>cmd/fscrypt/errors.go\<close>. Go strings are byte sequences and
  become \<^typ>\<open>string\<close>. Everything the file uses but does not declare (the flags and
  helpers of the other files of package main, the sentinel errors and constants of the
  imported packages, the pieces of urfave/cli, pkg/errors and the standard library) is
  either a field of the record \<open>env\<close> below or a small definition that says which library
  behaviour it stands for.
\<close>

subsection \<open>Formatting\<close>

text \<open>\<^verbatim>\<open>%d\<close> of \<^verbatim>\<open>fmt\<close>: the decimal digits, with a minus sign for a negative number.\<close>

fun digits :: "nat \<Rightarrow> string" where
  "digits n =
     (if n < 10 then [char_of (48 + n)]
      else digits (n div 10) @ [char_of (48 + n mod 10)])"

declare digits.simps [simp del]

definition fmt_d :: "int \<Rightarrow> string" where
  "fmt_d i = (if i < 0 then CHR ''-'' # digits (nat (- i)) else digits (nat i))"

text \<open>
  The raw string literals of \<^verbatim>\<open>getErrorSuggestions\<close> run over several source lines; every
  continuation line starts with a line feed and the three tabs of its indentation.
\<close>

definition cont :: string where
  "cont = [CHR 0x0A, CHR 0x09, CHR 0x09, CHR 0x09]"

subsection \<open>The context of urfave/cli\<close>

text \<open>
  An \<^verbatim>\<open>io.Writer\<close> is either some output stream of the process (standard output, a file)
  or a pointer to a \<^verbatim>\<open>bytes.Buffer\<close>; both are named by a number.
\<close>

datatype io_Writer = Stream nat | BufferPtr nat

text \<open>
  The fields of \<^verbatim>\<open>cli.App\<close>, \<^verbatim>\<open>cli.Command\<close> and \<^verbatim>\<open>cli.Context\<close> that the file reads or
  writes; the library's other fields are not read or written by it and are left out. A
  context is taken as urfave/cli hands it to a handler: \<^verbatim>\<open>c\<close>, \<^verbatim>\<open>c.App\<close> and
  \<^verbatim>\<open>c.App.Writer\<close> are not nil.
\<close>

record App =
  HelpName :: string
  Writer :: io_Writer

record Command =
  HelpName :: string
  Name :: string

record Context =
  App :: App
  Command :: Command

subsection \<open>Error values\<close>

text \<open>
  \<^verbatim>\<open>usageError\<close> is the struct of the file, with its fields \<^verbatim>\<open>c\<close> and \<^verbatim>\<open>message\<close> in
  this order.
\<close>

datatype usageError = usageError Context string

text \<open>
  A non-nil value of the interface \<^verbatim>\<open>error\<close>, by dynamic type:
  \<^item> \<open>fundamental p msg\<close>: the pointer \<open>p\<close> that \<^verbatim>\<open>errors.New\<close> or \<^verbatim>\<open>errors.Errorf\<close>
    returned, to a struct whose message is \<open>msg\<close>. Go compares such values by the
    pointer; the struct is never written again, so one address has one message and
    comparing both is the same comparison;
  \<^item> \<open>withStack e\<close> and \<open>withMessage e msg\<close>: the wrappers of pkg/errors, the two types
    with a \<^verbatim>\<open>Cause\<close> method (\<^verbatim>\<open>errors.Wrap\<close> builds one inside the other);
  \<^item> \<open>SystemError s\<close>: \<^verbatim>\<open>util.SystemError\<close>, a string type, compared by value;
  \<^item> \<open>ExitError msg code\<close>: what \<^verbatim>\<open>cli.NewExitError\<close> returns;
  \<^item> \<open>UsageError u\<close>: a \<^verbatim>\<open>*usageError\<close>;
  \<^item> \<open>foreign i msg\<close>: a value of any other error type, without a \<^verbatim>\<open>Cause\<close> method.
  The nil interface value is \<open>None\<close> of \<open>error option\<close>.
\<close>

datatype error =
    fundamental nat string
  | withStack error
  | withMessage error string
  | SystemError string
  | ExitError string int
  | UsageError usageError
  | foreign nat string

text \<open>A call that ends in a run-time panic returns \<open>Panic\<close>.\<close>

datatype 'a outcome = Panic | Return 'a

subsection \<open>What the file takes from elsewhere\<close>

text \<open>
  \<open>'flag\<close> is the type of the flag objects of flags.go (\<^verbatim>\<open>*stringFlag\<close>, \<^verbatim>\<open>*boolFlag\<close>);
  \<open>Value\<close> reads the field \<^verbatim>\<open>Value\<close> of a string flag. \<open>mountpointArg\<close> is the text
  \<^verbatim>\<open>%s\<close> prints for \<^verbatim>\<open>mountpointArg\<close>. \<open>SystemError_Error\<close> is the \<^verbatim>\<open>Error\<close> method of
  \<^verbatim>\<open>util.SystemError\<close>. \<open>wrapText\<close> is the helper of package main with this name and
  \<open>RuneCountInString\<close> the function of \<^verbatim>\<open>unicode/utf8\<close>. \<open>progName\<close> is
  \<^verbatim>\<open>filepath.Base(os.Args[0])\<close>. \<open>AppHelp\<close> and \<open>CommandHelp\<close> are the texts that
  \<^verbatim>\<open>cli.ShowAppHelp\<close> and \<^verbatim>\<open>cli.ShowCommandHelp\<close> render from the library's templates.
  The eight errors are the sentinel values of the packages filesystem, metadata and
  actions that \<^verbatim>\<open>getErrorSuggestions\<close> compares with.
\<close>

record 'flag env =
  filesystem_ErrNotSetup :: error
  metadata_ErrEncryptionNotSupported :: error
  metadata_ErrEncryptionNotEnabled :: error
  actions_ErrBadConfigFile :: error
  actions_ErrNoConfigFile :: error
  actions_ErrMissingPolicyMetadata :: error
  actions_ErrPolicyMetadataMismatch :: error
  actions_ErrMissingProtectorName :: error
  metadata_PolicyKeyLen :: int
  SystemError_Error :: "string \<Rightarrow> string"
  mountpointArg :: string
  shortDisplay :: "'flag \<Rightarrow> string"
  Value :: "'flag \<Rightarrow> string"
  verboseFlag :: 'flag
  nameFlag :: 'flag
  forceFlag :: 'flag
  protectorFlag :: 'flag
  keyFileFlag :: 'flag
  wrapText :: "string \<Rightarrow> int \<Rightarrow> string"
  RuneCountInString :: "string \<Rightarrow> int"
  progName :: string
  AppHelp :: "Context \<Rightarrow> string"
  CommandHelp :: "Context \<Rightarrow> string \<Rightarrow> string"

subsection \<open>pkg/errors\<close>

text \<open>
  \<^verbatim>\<open>errors.New(msg)\<close> allocates: the second component is the next free address, before
  and after the call. \<^verbatim>\<open>errors.Errorf\<close> is \<^verbatim>\<open>errors.New\<close> of the formatted message.
\<close>

definition errors_New :: "string \<Rightarrow> nat \<Rightarrow> error \<times> nat" where
  "errors_New msg p = (fundamental p msg, Suc p)"

text \<open>
  \<^verbatim>\<open>errors.Cause\<close> follows \<^verbatim>\<open>Cause()\<close> while the value has that method; nil stays nil.
\<close>

fun Cause :: "error \<Rightarrow> error" where
  "Cause (withStack e) = Cause e"
| "Cause (withMessage e msg) = Cause e"
| "Cause e = e"

definition errors_Cause :: "error option \<Rightarrow> error option" where
  "errors_Cause err = map_option Cause err"

subsection \<open>The constants and variables of the file\<close>

definition failureExitCode :: int where
  "failureExitCode = 1"

record vars =
  ErrCanceled :: error
  ErrNoDesctructiveOps :: error
  ErrMaxPassphrase :: error
  ErrInvalidSource :: error
  ErrPassphraseMismatch :: error
  ErrSpecifyProtector :: error
  ErrWrongKey :: error
  ErrSpecifyKeyFile :: error
  ErrKeyFileLength :: error
  ErrAllLoadsFailed :: error
  ErrMustBeRoot :: error
  ErrPolicyUnlocked :: error
  ErrBadOwners :: error
  ErrNotEmptyDir :: error
  ErrNotPassphrase :: error
  ErrUnknownUser :: error
  loadHelpText :: string

text \<open>
  Package initialisation runs the initialisers of the \<^verbatim>\<open>var\<close> declarations in their order,
  after the imported packages are initialised: \<open>p0\<close> is the next free address at that
  moment.
\<close>

definition init :: "'flag env \<Rightarrow> nat \<Rightarrow> vars \<times> nat" where
  "init env p0 =
    (let (canceled, p1) = errors_New ''operation canceled'' p0;
         (noDesctructiveOps, p2) = errors_New ''operation would be destructive'' p1;
         maxPassphrase = SystemError ''max passphrase length exceeded'';
         (invalidSource, p3) = errors_New ''invalid source type'' p2;
         (passphraseMismatch, p4) = errors_New ''entered passphrases do not match'' p3;
         (specifyProtector, p5) = errors_New ''multiple protectors available'' p4;
         (wrongKey, p6) = errors_New ''incorrect key provided'' p5;
         (specifyKeyFile, p7) = errors_New ''no key file specified'' p6;
         (keyFileLength, p8) =
            errors_New (''key file must be '' @ fmt_d (metadata_PolicyKeyLen env) @ '' bytes'') p7;
         (allLoadsFailed, p9) = errors_New ''could not load any protectors'' p8;
         (mustBeRoot, p10) = errors_New ''this command must be run as root'' p9;
         (policyUnlocked, p11) = errors_New ''this file or directory is already unlocked'' p10;
         (badOwners, p12) = errors_New ''you do not own this directory'' p11;
         (notEmptyDir, p13) = errors_New ''not an empty directory'' p12;
         (notPassphrase, p14) = errors_New ''protector does not use a passphrase'' p13;
         (unknownUser, p15) = errors_New ''unknown user'' p14
     in (\<lparr>ErrCanceled = canceled,
          ErrNoDesctructiveOps = noDesctructiveOps,
          ErrMaxPassphrase = maxPassphrase,
          ErrInvalidSource = invalidSource,
          ErrPassphraseMismatch = passphraseMismatch,
          ErrSpecifyProtector = specifyProtector,
          ErrWrongKey = wrongKey,
          ErrSpecifyKeyFile = specifyKeyFile,
          ErrKeyFileLength = keyFileLength,
          ErrAllLoadsFailed = allLoadsFailed,
          ErrMustBeRoot = mustBeRoot,
          ErrPolicyUnlocked = policyUnlocked,
          ErrBadOwners = badOwners,
          ErrNotEmptyDir = notEmptyDir,
          ErrNotPassphrase = notPassphrase,
          ErrUnknownUser = unknownUser,
          loadHelpText =
            ''You may need to mount a linked filesystem. Run with ''
              @ shortDisplay env (verboseFlag env) @ '' for more information.''\<rparr>,
         p15))"

subsection \<open>The functions of the file\<close>

definition getFullName :: "Context \<Rightarrow> string" where
  "getFullName c =
     (if Command.HelpName (Command c) \<noteq> '''' then Command.HelpName (Command c)
      else App.HelpName (App c))"

definition getErrorSuggestions :: "'flag env \<Rightarrow> vars \<Rightarrow> error option \<Rightarrow> string" where
  \<open>getErrorSuggestions env v err =
    (let cause = errors_Cause err in
     if cause = Some (filesystem_ErrNotSetup env) then
       ''Run "fscrypt setup '' @ mountpointArg env @ ''" to use fscrypt on this filesystem.''
     else if cause = Some (metadata_ErrEncryptionNotSupported env) then
       ''Encryption for this type of filesystem is not supported'' @ cont
         @ ''on this kernel version.''
     else if cause = Some (metadata_ErrEncryptionNotEnabled env) then
       ''Encryption is either disabled in the kernel config, or'' @ cont
         @ ''needs to be enabled for this filesystem. See the'' @ cont
         @ ''documentation on how to enable encryption on ext4'' @ cont
         @ ''systems (and the risks of doing so).''
     else if cause = Some (actions_ErrBadConfigFile env) then
       ''Run "sudo fscrypt setup" to recreate the file.''
     else if cause = Some (actions_ErrNoConfigFile env) then
       ''Run "sudo fscrypt setup" to create the file.''
     else if cause = Some (actions_ErrMissingPolicyMetadata env) then
       ''This file or directory has either been encrypted with'' @ cont
         @ ''another tool (such as e4crypt) or the corresponding'' @ cont
         @ ''filesystem metadata has been deleted.''
     else if cause = Some (actions_ErrPolicyMetadataMismatch env) then
       ''The metadata for this encrypted directory is in an'' @ cont
         @ ''inconsistent state. This most likely means the filesystem'' @ cont
         @ ''metadata is corrupted.''
     else if cause = Some (actions_ErrMissingProtectorName env) then
       ''Use '' @ shortDisplay env (nameFlag env) @ '' to specify a protector name.''
     else if cause = Some (ErrNoDesctructiveOps v) then
       ''Use '' @ shortDisplay env (forceFlag env) @ '' to automatically run destructive operations.''
     else if cause = Some (ErrSpecifyProtector v) then
       ''Use '' @ shortDisplay env (protectorFlag env) @ '' to specify a protector.''
     else if cause = Some (ErrSpecifyKeyFile v) then
       ''Use '' @ shortDisplay env (keyFileFlag env) @ '' to specify a key file.''
     else if cause = Some (ErrBadOwners v) then
       ''Encryption can only be setup on directories you own,'' @ cont
         @ ''even if you have write permission for the directory.''
     else if cause = Some (ErrNotEmptyDir v) then
       ''Encryption can only be setup on empty directories; files'' @ cont
         @ ''cannot be encrypted in-place. Instead, encrypt an empty'' @ cont
         @ ''directory, copy the files into that encrypted directory,'' @ cont
         @ ''and securely delete the originals with "shred".''
     else if cause = Some (ErrAllLoadsFailed v) then loadHelpText v
     else '''')\<close>

text \<open>
  The method \<^verbatim>\<open>Error\<close> of each error type: pkg/errors prints a \<^verbatim>\<open>withMessage\<close> as its
  message, a colon and the cause; \<^verbatim>\<open>usageError.Error\<close> is the one this file defines.
\<close>

fun usageError_Error :: "usageError \<Rightarrow> string" where
  "usageError_Error (usageError c message) = getFullName c @ '': '' @ message"

fun Error :: "'flag env \<Rightarrow> error \<Rightarrow> string" where
  "Error env (fundamental p msg) = msg"
| "Error env (withStack e) = Error env e"
| "Error env (withMessage e msg) = msg @ '': '' @ Error env e"
| "Error env (SystemError s) = SystemError_Error env s"
| "Error env (ExitError msg code) = msg"
| "Error env (UsageError u) = usageError_Error u"
| "Error env (foreign i msg) = msg"

text \<open>\<^verbatim>\<open>err.Error()\<close> on the nil interface value is a nil dereference.\<close>

definition newExitError :: "'flag env \<Rightarrow> vars \<Rightarrow> Context \<Rightarrow> error option \<Rightarrow> error outcome" where
  "newExitError env v c err =
    (case err of
       None \<Rightarrow> Panic
     | Some e \<Rightarrow>
        (let fullNamePrefix = getFullName c @ '': '';
             message = fullNamePrefix
                @ wrapText env (Error env e) (RuneCountInString env fullNamePrefix);
             suggestion = getErrorSuggestions env v err;
             message = (if suggestion \<noteq> ''''
                        then message @ [CHR 0x0A, CHR 0x0A] @ wrapText env suggestion 0
                        else message)
         in Return (ExitError message failureExitCode)))"

text \<open>The method \<^verbatim>\<open>ExitCode\<close> of \<^verbatim>\<open>*cli.ExitError\<close> returns the stored code.\<close>

fun ExitError_ExitCode :: "error \<Rightarrow> int option" where
  "ExitError_ExitCode (ExitError msg code) = Some code"
| "ExitError_ExitCode e = None"

text \<open>
  \<^verbatim>\<open>onUsageError\<close> keeps the context and the text of the error; its third argument is
  not used.
\<close>

definition onUsageError :: "'flag env \<Rightarrow> Context \<Rightarrow> error option \<Rightarrow> bool \<Rightarrow> error outcome" where
  "onUsageError env c err b =
    (case err of
       None \<Rightarrow> Panic
     | Some e \<Rightarrow> Return (UsageError (usageError c (Error env e))))"

text \<open>
  \<^verbatim>\<open>checkRequiredFlags\<close>: the loop over the slice returns at the first flag whose value is
  the empty string; \<open>None\<close> is the nil error. The elements are the flag objects the
  pointers of the slice point to.
\<close>

fun checkRequiredFlags :: "'flag env \<Rightarrow> Context \<Rightarrow> 'flag list \<Rightarrow> error option" where
  "checkRequiredFlags env c [] = None"
| "checkRequiredFlags env c (flag # flags) =
     (if Value env flag = ''''
      then Some (UsageError (usageError c
             (''required flag '' @ shortDisplay env flag @ '' not provided'')))
      else checkRequiredFlags env c flags)"

subsection \<open>Writers, and the exit code of a usage error\<close>

text \<open>
  The part of the process state that \<^verbatim>\<open>usageError.ExitCode\<close> touches besides the context:
  what has been written to each output stream, the unread bytes of each
  \<^verbatim>\<open>bytes.Buffer\<close>, and the address the next \<^verbatim>\<open>new(bytes.Buffer)\<close> gets. The results of
  the writes are ignored by the source; a stream here takes every byte.
\<close>

record world =
  streams :: "nat \<Rightarrow> string"
  buffers :: "nat \<Rightarrow> string"
  next_buffer :: nat

definition new_Buffer :: "world \<Rightarrow> nat \<times> world" where
  "new_Buffer s =
     (next_buffer s,
      s\<lparr>buffers := (buffers s)(next_buffer s := []), next_buffer := Suc (next_buffer s)\<rparr>)"

definition Write :: "io_Writer \<Rightarrow> string \<Rightarrow> world \<Rightarrow> world" where
  "Write w bs s =
     (case w of
        Stream n \<Rightarrow> s\<lparr>streams := (streams s)(n := streams s n @ bs)\<rparr>
      | BufferPtr a \<Rightarrow> s\<lparr>buffers := (buffers s)(a := buffers s a @ bs)\<rparr>)"

text \<open>
  \<^verbatim>\<open>buf.ReadBytes(delim)\<close> consumes the bytes up to and including the first \<open>delim\<close>, or
  all of them when there is none; the source drops what it returns.
\<close>

definition Buffer_ReadBytes :: "nat \<Rightarrow> char \<Rightarrow> world \<Rightarrow> world" where
  "Buffer_ReadBytes buf delim s =
     s\<lparr>buffers := (buffers s)(buf := drop 1 (dropWhile (\<lambda>b. b \<noteq> delim) (buffers s buf)))\<rparr>"

text \<open>\<^verbatim>\<open>buf.WriteTo(w)\<close> writes the unread bytes to \<open>w\<close> and leaves the buffer empty.\<close>

definition Buffer_WriteTo :: "nat \<Rightarrow> io_Writer \<Rightarrow> world \<Rightarrow> world" where
  "Buffer_WriteTo buf w s =
     (let bs = buffers s buf
      in Write w bs (s\<lparr>buffers := (buffers s)(buf := [])\<rparr>))"

text \<open>
  The two help printers of urfave/cli write the text they render to \<^verbatim>\<open>c.App.Writer\<close>;
  they do not assign to the context.
\<close>

definition ShowAppHelp :: "'flag env \<Rightarrow> Context \<Rightarrow> world \<Rightarrow> world" where
  "ShowAppHelp env c s = Write (Writer (App c)) (AppHelp env c) s"

definition ShowCommandHelp :: "'flag env \<Rightarrow> Context \<Rightarrow> string \<Rightarrow> world \<Rightarrow> world" where
  "ShowCommandHelp env c command s = Write (Writer (App c)) (CommandHelp env c command) s"

text \<open>
  \<^verbatim>\<open>usageError.ExitCode\<close> in its three steps, as the comments of the source divide it. The
  context is the object \<^verbatim>\<open>u.c\<close> points to; every step returns it as it has left it.
  \<^item> \<open>ExitCode_redirect\<close>: \<^verbatim>\<open>buf := new(bytes.Buffer)\<close>, \<^verbatim>\<open>oldWriter := u.c.App.Writer\<close>,
    \<^verbatim>\<open>u.c.App.Writer = buf\<close>; it returns \<open>buf\<close> and \<open>oldWriter\<close> too;
  \<^item> \<open>ExitCode_help\<close>: the \<^verbatim>\<open>if\<close> that prints the help of the application or of the command;
  \<^item> \<open>ExitCode_restore\<close>: \<^verbatim>\<open>buf.ReadBytes('\n')\<close>, \<^verbatim>\<open>buf.WriteTo(oldWriter)\<close>,
    \<^verbatim>\<open>u.c.App.Writer = oldWriter\<close>.
\<close>

definition ExitCode_redirect :: "Context \<Rightarrow> world \<Rightarrow> nat \<times> io_Writer \<times> Context \<times> world" where
  "ExitCode_redirect c s =
     (let (buf, s) = new_Buffer s;
          oldWriter = Writer (App c)
      in (buf, oldWriter, c\<lparr>App := (App c)\<lparr>Writer := BufferPtr buf\<rparr>\<rparr>, s))"

definition ExitCode_help :: "'flag env \<Rightarrow> Context \<Rightarrow> world \<Rightarrow> world" where
  "ExitCode_help env c s =
     (if getFullName c = progName env then ShowAppHelp env c s
      else ShowCommandHelp env c (Name (Command c)) s)"

definition ExitCode_restore :: "nat \<Rightarrow> io_Writer \<Rightarrow> Context \<Rightarrow> world \<Rightarrow> Context \<times> world" where
  "ExitCode_restore buf oldWriter c s =
     (let s = Buffer_ReadBytes buf (CHR 0x0A) s;
          s = Buffer_WriteTo buf oldWriter s
      in (c\<lparr>App := (App c)\<lparr>Writer := oldWriter\<rparr>\<rparr>, s))"

fun ExitCode :: "'flag env \<Rightarrow> usageError \<Rightarrow> world \<Rightarrow> int \<times> usageError \<times> world" where
  "ExitCode env (usageError c message) s =
     (let (buf, oldWriter, c, s) = ExitCode_redirect c s;
          s = ExitCode_help env c s;
          (c, s) = ExitCode_restore buf oldWriter c s
      in (failureExitCode, usageError c message, s))"

subsection \<open>The error values as lists, and addresses in use\<close>

text \<open>The sixteen error values of the \<^verbatim>\<open>var\<close> block, in the order of the source.\<close>

definition top_level_errors :: "vars \<Rightarrow> error list" where
  "top_level_errors v =
     [ErrCanceled v, ErrNoDesctructiveOps v, ErrMaxPassphrase v, ErrInvalidSource v,
      ErrPassphraseMismatch v, ErrSpecifyProtector v, ErrWrongKey v, ErrSpecifyKeyFile v,
      ErrKeyFileLength v, ErrAllLoadsFailed v, ErrMustBeRoot v, ErrPolicyUnlocked v,
      ErrBadOwners v, ErrNotEmptyDir v, ErrNotPassphrase v, ErrUnknownUser v]"

text \<open>The fourteen values the \<^verbatim>\<open>switch\<close> of \<^verbatim>\<open>getErrorSuggestions\<close> has a case for.\<close>

definition enumerated :: "'flag env \<Rightarrow> vars \<Rightarrow> error list" where
  "enumerated env v =
     [filesystem_ErrNotSetup env, metadata_ErrEncryptionNotSupported env,
      metadata_ErrEncryptionNotEnabled env, actions_ErrBadConfigFile env,
      actions_ErrNoConfigFile env, actions_ErrMissingPolicyMetadata env,
      actions_ErrPolicyMetadataMismatch env, actions_ErrMissingProtectorName env,
      ErrNoDesctructiveOps v, ErrSpecifyProtector v, ErrSpecifyKeyFile v,
      ErrBadOwners v, ErrNotEmptyDir v, ErrAllLoadsFailed v]"

text \<open>
  \<open>allocated p e\<close>: every \<^verbatim>\<open>errors.New\<close> pointer inside \<open>e\<close> is below \<open>p\<close>, that is, it was
  allocated before the allocation counter reached \<open>p\<close>. The sentinel errors of the imported
  packages exist before package main is initialised: \<open>imports_allocated env p0\<close>.
\<close>

fun allocated :: "nat \<Rightarrow> error \<Rightarrow> bool" where
  "allocated p (fundamental a msg) = (a < p)"
| "allocated p (withStack e) = allocated p e"
| "allocated p (withMessage e msg) = allocated p e"
| "allocated p e = True"

definition imports_allocated :: "'flag env \<Rightarrow> nat \<Rightarrow> bool" where
  "imports_allocated env p =
     (allocated p (filesystem_ErrNotSetup env) \<and>
      allocated p (metadata_ErrEncryptionNotSupported env) \<and>
      allocated p (metadata_ErrEncryptionNotEnabled env) \<and>
      allocated p (actions_ErrBadConfigFile env) \<and>
      allocated p (actions_ErrNoConfigFile env) \<and>
      allocated p (actions_ErrMissingPolicyMetadata env) \<and>
      allocated p (actions_ErrPolicyMetadataMismatch env) \<and>
      allocated p (actions_ErrMissingProtectorName env))"

subsection \<open>The gate before a destructive operation\<close>

text \<open>
  Modelled from the spec: the confirmation gate of \<^verbatim>\<open>destroy(record)\<close>; the code that
  raises \<^verbatim>\<open>ErrNoDesctructiveOps\<close> is in other files of the repository. The spec: destroy
  "requires confirmation that no policy still references this descriptor, else fails
  with a would-orphan-a-policy condition, unless an explicit force override is given --
  destruction then proceeds". \<open>referenced\<close> says that a policy still references the
  descriptor, so that destroying the record would be destructive; the result is the
  error the operation fails with, or \<open>None\<close> when it proceeds.
\<close>

definition destroy :: "vars \<Rightarrow> bool \<Rightarrow> bool \<Rightarrow> error option" where
  "destroy v referenced force =
     (if referenced \<and> \<not> force then Some (ErrNoDesctructiveOps v) else None)"

subsection \<open>The checks of policy creation\<close>

text \<open>
  Modelled from the spec: \<^verbatim>\<open>create(directoryContext) -> PolicyRecord\<close> of the policy
  model; the code that creates a policy and returns \<^verbatim>\<open>ErrPolicyUnlocked\<close>,
  \<^verbatim>\<open>ErrNotEmptyDir\<close> or \<^verbatim>\<open>ErrBadOwners\<close> is in other files of the repository. The spec:
  create returns a policy record "with an empty wrap list; fails if the directory already
  has a policy (PolicyUnlocked/already-configured condition), or if the directory is
  non-empty (directory content cannot be retroactively encrypted) unless explicitly
  exempted, or if the caller does not own the directory". The directory context says
  which of these hold; the three checks are in the order of the sentence, each with the
  error value the claim names for it. A wrap entry is a protector descriptor with its
  sealed blob.
\<close>

record directoryContext =
  policy_descriptor :: string
  has_policy :: bool
  non_empty :: bool
  exempted :: bool
  caller_owns :: bool

record PolicyRecord =
  descriptor :: string
  wrap_list :: "(string \<times> string) list"

definition create :: "vars \<Rightarrow> directoryContext \<Rightarrow> error + PolicyRecord" where
  "create v d =
     (if has_policy d then Inl (ErrPolicyUnlocked v)
      else if non_empty d \<and> \<not> exempted d then Inl (ErrNotEmptyDir v)
      else if \<not> caller_owns d then Inl (ErrBadOwners v)
      else Inr \<lparr>descriptor = policy_descriptor d, wrap_list = []\<rparr>)"

subsection \<open>An example environment\<close>

text \<open>
  Concrete values for the parts taken from elsewhere, to run the functions on: a flag
  is its name and its value, \<open>shortDisplay\<close> puts two dashes before the name, the
  imported sentinel errors are eight \<^verbatim>\<open>errors.New\<close> values at the addresses 0 to 7, so
  that package main is initialised from address 8, and the help texts have two lines.
\<close>

definition example_env :: "(string \<times> string) env" where
  "example_env =
    \<lparr>filesystem_ErrNotSetup = fundamental 0 ''filesystem not setup'',
     metadata_ErrEncryptionNotSupported = fundamental 1 ''encryption not supported'',
     metadata_ErrEncryptionNotEnabled = fundamental 2 ''encryption not enabled'',
     actions_ErrBadConfigFile = fundamental 3 ''bad config file'',
     actions_ErrNoConfigFile = fundamental 4 ''no config file'',
     actions_ErrMissingPolicyMetadata = fundamental 5 ''missing policy metadata'',
     actions_ErrPolicyMetadataMismatch = fundamental 6 ''policy metadata mismatch'',
     actions_ErrMissingProtectorName = fundamental 7 ''missing protector name'',
     metadata_PolicyKeyLen = 64,
     SystemError_Error = (\<lambda>s. ''system error: '' @ s),
     mountpointArg = ''MOUNTPOINT'',
     shortDisplay = (\<lambda>flag. ''--'' @ fst flag),
     Value = snd,
     verboseFlag = (''verbose'', ''''),
     nameFlag = (''name'', ''''),
     forceFlag = (''force'', ''''),
     protectorFlag = (''protector'', ''''),
     keyFileFlag = (''key'', ''''),
     wrapText = (\<lambda>s padding. s),
     RuneCountInString = (\<lambda>s. int (length s)),
     progName = ''fscrypt'',
     AppHelp = (\<lambda>c. ''NAME:'' @ [CHR 0x0A] @ ''fscrypt'' @ [CHR 0x0A]),
     CommandHelp = (\<lambda>c command. ''NAME:'' @ [CHR 0x0A] @ command @ [CHR 0x0A])\<rparr>"

definition example_vars :: vars where
  "example_vars = fst (init example_env 8)"

definition example_context :: Context where
  "example_context =
    \<lparr>App = \<lparr>App.HelpName = ''fscrypt'', Writer = Stream 1\<rparr>,
     Command = \<lparr>Command.HelpName = ''fscrypt unlock'', Name = ''unlock''\<rparr>\<rparr>"

definition example_world :: world where
  "example_world = \<lparr>streams = (\<lambda>n. []), buffers = (\<lambda>a. []), next_buffer = 0\<rparr>"

section \<open>Properties\<close>

subsection \<open>Auxiliary facts\<close>

lemma init_vars:
  "fst (init env p0) =
    \<lparr>ErrCanceled = fundamental p0 ''operation canceled'',
     ErrNoDesctructiveOps = fundamental (p0 + 1) ''operation would be destructive'',
     ErrMaxPassphrase = SystemError ''max passphrase length exceeded'',
     ErrInvalidSource = fundamental (p0 + 2) ''invalid source type'',
     ErrPassphraseMismatch = fundamental (p0 + 3) ''entered passphrases do not match'',
     ErrSpecifyProtector = fundamental (p0 + 4) ''multiple protectors available'',
     ErrWrongKey = fundamental (p0 + 5) ''incorrect key provided'',
     ErrSpecifyKeyFile = fundamental (p0 + 6) ''no key file specified'',
     ErrKeyFileLength = fundamental (p0 + 7)
        (''key file must be '' @ fmt_d (metadata_PolicyKeyLen env) @ '' bytes''),
     ErrAllLoadsFailed = fundamental (p0 + 8) ''could not load any protectors'',
     ErrMustBeRoot = fundamental (p0 + 9) ''this command must be run as root'',
     ErrPolicyUnlocked = fundamental (p0 + 10) ''this file or directory is already unlocked'',
     ErrBadOwners = fundamental (p0 + 11) ''you do not own this directory'',
     ErrNotEmptyDir = fundamental (p0 + 12) ''not an empty directory'',
     ErrNotPassphrase = fundamental (p0 + 13) ''protector does not use a passphrase'',
     ErrUnknownUser = fundamental (p0 + 14) ''unknown user'',
     loadHelpText = ''You may need to mount a linked filesystem. Run with ''
        @ shortDisplay env (verboseFlag env) @ '' for more information.''\<rparr>"
  by (simp add: init_def errors_New_def)

lemma init_next: "snd (init env p0) = p0 + 15"
  by (simp add: init_def errors_New_def)

lemma allocated_fresh: "allocated p e \<Longrightarrow> p \<le> a \<Longrightarrow> e \<noteq> fundamental a msg"
  by (cases e) auto

lemma imports_not_fresh:
  assumes "imports_allocated env p0" and "p0 \<le> a"
  shows "filesystem_ErrNotSetup env \<noteq> fundamental a msg"
    and "metadata_ErrEncryptionNotSupported env \<noteq> fundamental a msg"
    and "metadata_ErrEncryptionNotEnabled env \<noteq> fundamental a msg"
    and "actions_ErrBadConfigFile env \<noteq> fundamental a msg"
    and "actions_ErrNoConfigFile env \<noteq> fundamental a msg"
    and "actions_ErrMissingPolicyMetadata env \<noteq> fundamental a msg"
    and "actions_ErrPolicyMetadataMismatch env \<noteq> fundamental a msg"
    and "actions_ErrMissingProtectorName env \<noteq> fundamental a msg"
  using assms allocated_fresh [of p0 _ a msg]
  by (simp_all add: imports_allocated_def)

lemmas fresh_not_imports = imports_not_fresh [THEN not_sym]

lemma top_level_distinct: "distinct (top_level_errors (fst (init env p0)))"
  by (simp add: init_vars top_level_errors_def)

lemma fmt_d_64: "fmt_d 64 = ''64''"
  by code_simp

lemma example_imports_allocated: "imports_allocated example_env 8"
  by (simp add: imports_allocated_def example_env_def)

lemma example_vars_eq:
  "example_vars =
    \<lparr>ErrCanceled = fundamental 8 ''operation canceled'',
     ErrNoDesctructiveOps = fundamental 9 ''operation would be destructive'',
     ErrMaxPassphrase = SystemError ''max passphrase length exceeded'',
     ErrInvalidSource = fundamental 10 ''invalid source type'',
     ErrPassphraseMismatch = fundamental 11 ''entered passphrases do not match'',
     ErrSpecifyProtector = fundamental 12 ''multiple protectors available'',
     ErrWrongKey = fundamental 13 ''incorrect key provided'',
     ErrSpecifyKeyFile = fundamental 14 ''no key file specified'',
     ErrKeyFileLength = fundamental 15 ''key file must be 64 bytes'',
     ErrAllLoadsFailed = fundamental 16 ''could not load any protectors'',
     ErrMustBeRoot = fundamental 17 ''this command must be run as root'',
     ErrPolicyUnlocked = fundamental 18 ''this file or directory is already unlocked'',
     ErrBadOwners = fundamental 19 ''you do not own this directory'',
     ErrNotEmptyDir = fundamental 20 ''not an empty directory'',
     ErrNotPassphrase = fundamental 21 ''protector does not use a passphrase'',
     ErrUnknownUser = fundamental 22 ''unknown user'',
     loadHelpText =
       ''You may need to mount a linked filesystem. Run with --verbose for more information.''\<rparr>"
  by (simp add: example_vars_def init_vars example_env_def fmt_d_64)

lemma Cause_idem: "Cause (Cause e) = Cause e"
  by (induction e) simp_all

lemma suggestion_of_local:
  assumes "imports_allocated env p0" and "v = fst (init env p0)"
  shows "errors_Cause err = Some (ErrNoDesctructiveOps v) \<Longrightarrow>
           getErrorSuggestions env v err =
             ''Use '' @ shortDisplay env (forceFlag env)
               @ '' to automatically run destructive operations.''"
    and "errors_Cause err = Some (ErrSpecifyProtector v) \<Longrightarrow>
           getErrorSuggestions env v err =
             ''Use '' @ shortDisplay env (protectorFlag env) @ '' to specify a protector.''"
    and "errors_Cause err = Some (ErrSpecifyKeyFile v) \<Longrightarrow>
           getErrorSuggestions env v err =
             ''Use '' @ shortDisplay env (keyFileFlag env) @ '' to specify a key file.''"
    and "errors_Cause err = Some (ErrBadOwners v) \<Longrightarrow>
           getErrorSuggestions env v err =
             ''Encryption can only be setup on directories you own,'' @ cont
               @ ''even if you have write permission for the directory.''"
    and \<open>errors_Cause err = Some (ErrNotEmptyDir v) \<Longrightarrow>
           getErrorSuggestions env v err =
             ''Encryption can only be setup on empty directories; files'' @ cont
               @ ''cannot be encrypted in-place. Instead, encrypt an empty'' @ cont
               @ ''directory, copy the files into that encrypted directory,'' @ cont
               @ ''and securely delete the originals with "shred".''\<close>
    and "errors_Cause err = Some (ErrAllLoadsFailed v) \<Longrightarrow>
           getErrorSuggestions env v err =
             ''You may need to mount a linked filesystem. Run with ''
               @ shortDisplay env (verboseFlag env) @ '' for more information.''"
    and "errors_Cause err = Some (ErrWrongKey v) \<Longrightarrow> getErrorSuggestions env v err = ''''"
    and "errors_Cause err = Some (ErrPolicyUnlocked v) \<Longrightarrow> getErrorSuggestions env v err = ''''"
  by (simp_all add: getErrorSuggestions_def assms(2) init_vars
        fresh_not_imports [OF assms(1)])

lemma checkRequiredFlags_nil_iff:
  "checkRequiredFlags env c flags = None \<longleftrightarrow> (\<forall>flag \<in> set flags. Value env flag \<noteq> '''')"
  by (induction flags) auto

lemma checkRequiredFlags_first:
  "checkRequiredFlags env c flags \<noteq> None \<Longrightarrow>
   \<exists>pre flag post.
      flags = pre @ flag # post \<and> (\<forall>f \<in> set pre. Value env f \<noteq> '''') \<and>
      Value env flag = '''' \<and>
      checkRequiredFlags env c flags =
        Some (UsageError (usageError c
          (''required flag '' @ shortDisplay env flag @ '' not provided'')))"
proof (induction flags)
  case Nil
  then show ?case by simp
next
  case (Cons x xs)
  show ?case
  proof (cases "Value env x = ''''")
    case True
    then have "x # xs = [] @ x # xs \<and> (\<forall>f \<in> set []. Value env f \<noteq> '''') \<and>
      Value env x = '''' \<and>
      checkRequiredFlags env c (x # xs) =
        Some (UsageError (usageError c
          (''required flag '' @ shortDisplay env x @ '' not provided'')))"
      by simp
    then show ?thesis by blast
  next
    case False
    with Cons.prems have "checkRequiredFlags env c xs \<noteq> None" by simp
    from Cons.IH [OF this] obtain pre flag post where
      h: "xs = pre @ flag # post" "\<forall>f \<in> set pre. Value env f \<noteq> ''''"
         "Value env flag = ''''"
         "checkRequiredFlags env c xs =
            Some (UsageError (usageError c
              (''required flag '' @ shortDisplay env flag @ '' not provided'')))"
      by blast
    from h False have "x # xs = (x # pre) @ flag # post \<and>
      (\<forall>f \<in> set (x # pre). Value env f \<noteq> '''') \<and>
      Value env flag = '''' \<and>
      checkRequiredFlags env c (x # xs) =
        Some (UsageError (usageError c
          (''required flag '' @ shortDisplay env flag @ '' not provided'')))"
      by simp
    then show ?thesis by blast
  qed
qed

lemma if_member: "a \<in> S \<Longrightarrow> b \<in> S \<Longrightarrow> (if c then a else b) \<in> S"
  by simp

lemma loadHelpText_init:
  "v = fst (init env p0) \<Longrightarrow>
   loadHelpText v = ''You may need to mount a linked filesystem. Run with ''
     @ shortDisplay env (verboseFlag env) @ '' for more information.''"
  by (simp add: init_vars)

subsection \<open>The claims\<close>

text \<open>
  C1, as amended. The texts of the sixteen error values are fixed when the package is
  initialised: fifteen are literals of the source (the one of \<^verbatim>\<open>ErrMaxPassphrase\<close> as
  \<^verbatim>\<open>util.SystemError\<close> prints it) and the one of \<^verbatim>\<open>ErrKeyFileLength\<close> has the decimal digits
  of \<^verbatim>\<open>metadata.PolicyKeyLen\<close> in it. Whatever error \<^verbatim>\<open>getErrorSuggestions\<close> is given, and
  whatever bytes that error carries in its messages, the suggestion is one of fifteen
  texts: the empty string, eight literals, and six texts that have a public constant of
  the program in them, the display text of a command-line flag or of the mountpoint
  argument. No text is computed from the error's own message, so none has key material or
  passphrase bytes in it.
\<close>

theorem messages_are_fixed_texts:
  assumes "v = fst (init env p0)"
  shows \<open>map (Error env) (top_level_errors v) =
          [''operation canceled'',
           ''operation would be destructive'',
           SystemError_Error env ''max passphrase length exceeded'',
           ''invalid source type'',
           ''entered passphrases do not match'',
           ''multiple protectors available'',
           ''incorrect key provided'',
           ''no key file specified'',
           ''key file must be '' @ fmt_d (metadata_PolicyKeyLen env) @ '' bytes'',
           ''could not load any protectors'',
           ''this command must be run as root'',
           ''this file or directory is already unlocked'',
           ''you do not own this directory'',
           ''not an empty directory'',
           ''protector does not use a passphrase'',
           ''unknown user''] \<and>
         getErrorSuggestions env v err \<in> set
          ['''',
           ''Run "fscrypt setup '' @ mountpointArg env @ ''" to use fscrypt on this filesystem.'',
           ''Encryption for this type of filesystem is not supported'' @ cont
             @ ''on this kernel version.'',
           ''Encryption is either disabled in the kernel config, or'' @ cont
             @ ''needs to be enabled for this filesystem. See the'' @ cont
             @ ''documentation on how to enable encryption on ext4'' @ cont
             @ ''systems (and the risks of doing so).'',
           ''Run "sudo fscrypt setup" to recreate the file.'',
           ''Run "sudo fscrypt setup" to create the file.'',
           ''This file or directory has either been encrypted with'' @ cont
             @ ''another tool (such as e4crypt) or the corresponding'' @ cont
             @ ''filesystem metadata has been deleted.'',
           ''The metadata for this encrypted directory is in an'' @ cont
             @ ''inconsistent state. This most likely means the filesystem'' @ cont
             @ ''metadata is corrupted.'',
           ''Use '' @ shortDisplay env (nameFlag env) @ '' to specify a protector name.'',
           ''Use '' @ shortDisplay env (forceFlag env)
             @ '' to automatically run destructive operations.'',
           ''Use '' @ shortDisplay env (protectorFlag env) @ '' to specify a protector.'',
           ''Use '' @ shortDisplay env (keyFileFlag env) @ '' to specify a key file.'',
           ''Encryption can only be setup on directories you own,'' @ cont
             @ ''even if you have write permission for the directory.'',
           ''Encryption can only be setup on empty directories; files'' @ cont
             @ ''cannot be encrypted in-place. Instead, encrypt an empty'' @ cont
             @ ''directory, copy the files into that encrypted directory,'' @ cont
             @ ''and securely delete the originals with "shred".'',
           ''You may need to mount a linked filesystem. Run with ''
             @ shortDisplay env (verboseFlag env) @ '' for more information.'']\<close>
    (is "?texts \<and> ?suggestion")
proof -
  have ?texts
    by (simp add: assms init_vars top_level_errors_def)
  moreover have ?suggestion
    unfolding getErrorSuggestions_def Let_def loadHelpText_init [OF assms]
    by (intro if_member; (rule list.set_intros(1) | rule list.set_intros(2))+)
  ultimately show ?thesis ..
qed

theorem messages_are_fixed_texts_witness:
  "example_vars = fst (init example_env 8) \<and>
   Error example_env (ErrKeyFileLength example_vars) = ''key file must be 64 bytes'' \<and>
   Error example_env (ErrMaxPassphrase example_vars) =
     ''system error: max passphrase length exceeded'' \<and>
   getErrorSuggestions example_env example_vars
      (Some (withMessage (ErrAllLoadsFailed example_vars) ''passphrase: hunter2'')) =
     ''You may need to mount a linked filesystem. Run with --verbose for more information.''"
proof -
  have "Error example_env (ErrKeyFileLength example_vars) = ''key file must be 64 bytes'' \<and>
   Error example_env (ErrMaxPassphrase example_vars) =
     ''system error: max passphrase length exceeded'' \<and>
   getErrorSuggestions example_env example_vars
      (Some (withMessage (ErrAllLoadsFailed example_vars) ''passphrase: hunter2'')) =
     ''You may need to mount a linked filesystem. Run with --verbose for more information.''"
    using messages_are_fixed_texts [OF example_vars_def,
        of "Some (withMessage (ErrAllLoadsFailed example_vars) ''passphrase: hunter2'')"]
    by (simp add: example_vars_eq getErrorSuggestions_def errors_Cause_def example_env_def)
  with example_vars_def show ?thesis by (rule conjI)
qed

text \<open>
  C1 as it is stated fails: \<^verbatim>\<open>metadata.PolicyKeyLen\<close> is not the only datum that is
  interpolated into these messages. Two environments with the same \<^verbatim>\<open>PolicyKeyLen\<close> that
  differ in \<^verbatim>\<open>forceFlag\<close> alone give two different suggestions for the same error.
\<close>

theorem only_PolicyKeyLen_varies_counterexample:
  "metadata_PolicyKeyLen (example_env\<lparr>forceFlag := (''yes'', '''')\<rparr>) =
     metadata_PolicyKeyLen example_env \<and>
   fst (init (example_env\<lparr>forceFlag := (''yes'', '''')\<rparr>) 8) = fst (init example_env 8) \<and>
   getErrorSuggestions example_env (fst (init example_env 8))
      (Some (ErrNoDesctructiveOps (fst (init example_env 8)))) =
     ''Use --force to automatically run destructive operations.'' \<and>
   getErrorSuggestions (example_env\<lparr>forceFlag := (''yes'', '''')\<rparr>)
      (fst (init (example_env\<lparr>forceFlag := (''yes'', '''')\<rparr>) 8))
      (Some (ErrNoDesctructiveOps (fst (init (example_env\<lparr>forceFlag := (''yes'', '''')\<rparr>) 8)))) =
     ''Use --yes to automatically run destructive operations.''"
  by (simp add: init_vars getErrorSuggestions_def errors_Cause_def example_env_def)

text \<open>
  C3. \<^verbatim>\<open>ErrWrongKey\<close> and \<^verbatim>\<open>ErrAllLoadsFailed\<close> are two different error values with two
  different messages. For an error whose cause is \<^verbatim>\<open>ErrAllLoadsFailed\<close> the suggestion is
  \<^verbatim>\<open>loadHelpText\<close>, the hint to mount a linked filesystem; for one whose cause is
  \<^verbatim>\<open>ErrWrongKey\<close> it is the empty string.
\<close>

theorem wrong_key_and_all_loads_failed:
  assumes "imports_allocated env p0" and "v = fst (init env p0)"
  shows "ErrWrongKey v \<noteq> ErrAllLoadsFailed v \<and>
         Error env (ErrWrongKey v) = ''incorrect key provided'' \<and>
         Error env (ErrAllLoadsFailed v) = ''could not load any protectors'' \<and>
         Error env (ErrWrongKey v) \<noteq> Error env (ErrAllLoadsFailed v) \<and>
         (errors_Cause err = Some (ErrAllLoadsFailed v) \<longrightarrow>
            getErrorSuggestions env v err = loadHelpText v \<and>
            loadHelpText v =
              ''You may need to mount a linked filesystem. Run with ''
                @ shortDisplay env (verboseFlag env) @ '' for more information.'') \<and>
         (errors_Cause err = Some (ErrWrongKey v) \<longrightarrow> getErrorSuggestions env v err = '''')"
proof -
  have "ErrWrongKey v \<noteq> ErrAllLoadsFailed v \<and>
         Error env (ErrWrongKey v) = ''incorrect key provided'' \<and>
         Error env (ErrAllLoadsFailed v) = ''could not load any protectors''"
    by (simp add: assms(2) init_vars)
  then show ?thesis
    using suggestion_of_local(6,7) [OF assms, of err] loadHelpText_init [OF assms(2)]
    by simp
qed

theorem wrong_key_and_all_loads_failed_witness:
  "imports_allocated example_env 8 \<and> example_vars = fst (init example_env 8) \<and>
   errors_Cause (Some (withStack (withMessage (ErrAllLoadsFailed example_vars) ''unlock''))) =
     Some (ErrAllLoadsFailed example_vars) \<and>
   getErrorSuggestions example_env example_vars
      (Some (withStack (withMessage (ErrAllLoadsFailed example_vars) ''unlock''))) =
     ''You may need to mount a linked filesystem. Run with --verbose for more information.'' \<and>
   errors_Cause (Some (ErrWrongKey example_vars)) = Some (ErrWrongKey example_vars) \<and>
   getErrorSuggestions example_env example_vars (Some (ErrWrongKey example_vars)) = ''''"
  using wrong_key_and_all_loads_failed [of example_env 8 example_vars
      "Some (withStack (withMessage (ErrAllLoadsFailed example_vars) ''unlock''))"]
    wrong_key_and_all_loads_failed [of example_env 8 example_vars
      "Some (ErrWrongKey example_vars)"]
    example_imports_allocated
  by (simp add: example_vars_def [symmetric] errors_Cause_def example_vars_eq)

text \<open>
  C4. The suggestion is a function of \<^verbatim>\<open>errors.Cause(err)\<close>: two errors with the same cause
  get the same suggestion, an error gets the suggestion of its cause, and an error whose
  cause is none of the fourteen values of the \<^verbatim>\<open>switch\<close> (the nil cause of the nil error
  included) gets the empty string.
\<close>

theorem suggestion_depends_on_cause_only:
  "(errors_Cause err1 = errors_Cause err2 \<longrightarrow>
      getErrorSuggestions env v err1 = getErrorSuggestions env v err2) \<and>
   getErrorSuggestions env v err = getErrorSuggestions env v (errors_Cause err) \<and>
   (errors_Cause err \<notin> Some ` set (enumerated env v) \<longrightarrow> getErrorSuggestions env v err = '''')"
proof -
  have "errors_Cause (errors_Cause err) = errors_Cause err"
    by (cases err) (simp_all add: errors_Cause_def Cause_idem)
  then have "getErrorSuggestions env v err = getErrorSuggestions env v (errors_Cause err)"
    by (simp add: getErrorSuggestions_def)
  moreover have "errors_Cause err1 = errors_Cause err2 \<longrightarrow>
      getErrorSuggestions env v err1 = getErrorSuggestions env v err2"
    by (simp add: getErrorSuggestions_def)
  moreover have "errors_Cause err \<notin> Some ` set (enumerated env v) \<longrightarrow>
      getErrorSuggestions env v err = ''''"
    by (auto simp: getErrorSuggestions_def enumerated_def Let_def)
  ultimately show ?thesis by blast
qed

theorem suggestion_depends_on_cause_only_witness:
  "errors_Cause (Some (withMessage (ErrSpecifyKeyFile example_vars) ''add protector'')) =
     errors_Cause (Some (withStack (ErrSpecifyKeyFile example_vars))) \<and>
   getErrorSuggestions example_env example_vars
      (Some (withMessage (ErrSpecifyKeyFile example_vars) ''add protector'')) =
     getErrorSuggestions example_env example_vars
      (Some (withStack (ErrSpecifyKeyFile example_vars))) \<and>
   errors_Cause (Some (withStack (ErrMustBeRoot example_vars))) \<notin>
     Some ` set (enumerated example_env example_vars) \<and>
   getErrorSuggestions example_env example_vars
      (Some (withStack (ErrMustBeRoot example_vars))) = '''' \<and>
   errors_Cause None \<notin> Some ` set (enumerated example_env example_vars) \<and>
   getErrorSuggestions example_env example_vars None = ''''"
  using suggestion_depends_on_cause_only [of
      "Some (withMessage (ErrSpecifyKeyFile example_vars) ''add protector'')"
      "Some (withStack (ErrSpecifyKeyFile example_vars))" example_env example_vars
      "Some (withStack (ErrMustBeRoot example_vars))"]
    suggestion_depends_on_cause_only [of None None example_env example_vars None]
  by (simp add: errors_Cause_def enumerated_def example_vars_eq example_env_def
        getErrorSuggestions_def)

text \<open>
  C5. Against the gate modelled from the spec, a destructive operation without the force
  override fails with \<^verbatim>\<open>ErrNoDesctructiveOps\<close>, and with the override it proceeds. On the
  code: \<^verbatim>\<open>ErrNoDesctructiveOps\<close> says "operation would be destructive", it is one of the
  sixteen top-level error values, no two of which are equal, and for an error with this
  cause \<^verbatim>\<open>getErrorSuggestions\<close> returns the sentence that names the force flag.
\<close>

theorem destructive_needs_force:
  assumes "imports_allocated env p0" and "v = fst (init env p0)"
  shows "destroy v True False = Some (ErrNoDesctructiveOps v) \<and>
         destroy v True True = None \<and>
         Error env (ErrNoDesctructiveOps v) = ''operation would be destructive'' \<and>
         ErrNoDesctructiveOps v \<in> set (top_level_errors v) \<and>
         distinct (top_level_errors v) \<and>
         (errors_Cause err = Some (ErrNoDesctructiveOps v) \<longrightarrow>
            getErrorSuggestions env v err =
              ''Use '' @ shortDisplay env (forceFlag env)
                @ '' to automatically run destructive operations.'')"
proof -
  have "Error env (ErrNoDesctructiveOps v) = ''operation would be destructive''"
    by (simp add: assms(2) init_vars)
  moreover have "ErrNoDesctructiveOps v \<in> set (top_level_errors v)"
    by (simp add: top_level_errors_def)
  moreover have "distinct (top_level_errors v)"
    unfolding assms(2) by (rule top_level_distinct)
  ultimately show ?thesis
    using suggestion_of_local(1) [OF assms, of err] by (simp add: destroy_def)
qed

theorem destructive_needs_force_witness:
  "imports_allocated example_env 8 \<and> example_vars = fst (init example_env 8) \<and>
   destroy example_vars True False =
     Some (fundamental 9 ''operation would be destructive'') \<and>
   getErrorSuggestions example_env example_vars
      (Some (withMessage (fundamental 9 ''operation would be destructive'') ''purge'')) =
     ''Use --force to automatically run destructive operations.''"
proof -
  have "destroy example_vars True False =
     Some (fundamental 9 ''operation would be destructive'') \<and>
   getErrorSuggestions example_env example_vars
      (Some (withMessage (fundamental 9 ''operation would be destructive'') ''purge'')) =
     ''Use --force to automatically run destructive operations.''"
    using destructive_needs_force [OF example_imports_allocated example_vars_def,
        of "Some (withMessage (fundamental 9 ''operation would be destructive'') ''purge'')"]
    by (simp add: example_vars_eq errors_Cause_def example_env_def)
  with example_imports_allocated example_vars_def show ?thesis by blast
qed

text \<open>
  C6. Against policy creation as modelled from the spec, each of the three failure
  conditions is reported with an error value of its own: a directory that already has a
  policy with \<^verbatim>\<open>ErrPolicyUnlocked\<close>, a non-empty directory that is not exempted with
  \<^verbatim>\<open>ErrNotEmptyDir\<close>, a directory the caller does not own with \<^verbatim>\<open>ErrBadOwners\<close>; and the
  value that is reported tells which condition held, because the three values are
  different. When none holds, the result is a policy record with an empty wrap list. On
  the code: the three values are pairwise different and have different messages, and the
  suggestion for an error whose cause is \<^verbatim>\<open>ErrNotEmptyDir\<close> says that files cannot be
  encrypted in-place.
\<close>

theorem policy_creation_failures_distinct:
  assumes "imports_allocated env p0" and "v = fst (init env p0)"
  shows \<open>distinct [ErrPolicyUnlocked v, ErrNotEmptyDir v, ErrBadOwners v] \<and>
         map (Error env) [ErrPolicyUnlocked v, ErrNotEmptyDir v, ErrBadOwners v] =
           [''this file or directory is already unlocked'', ''not an empty directory'',
            ''you do not own this directory''] \<and>
         (has_policy d \<longrightarrow> create v d = Inl (ErrPolicyUnlocked v)) \<and>
         (\<not> has_policy d \<and> non_empty d \<and> \<not> exempted d \<longrightarrow>
            create v d = Inl (ErrNotEmptyDir v)) \<and>
         (\<not> has_policy d \<and> (non_empty d \<longrightarrow> exempted d) \<and> \<not> caller_owns d \<longrightarrow>
            create v d = Inl (ErrBadOwners v)) \<and>
         (\<not> has_policy d \<and> (non_empty d \<longrightarrow> exempted d) \<and> caller_owns d \<longrightarrow>
            create v d = Inr \<lparr>descriptor = policy_descriptor d, wrap_list = []\<rparr>) \<and>
         (create v d = Inl (ErrPolicyUnlocked v) \<longrightarrow> has_policy d) \<and>
         (create v d = Inl (ErrNotEmptyDir v) \<longrightarrow> non_empty d \<and> \<not> exempted d) \<and>
         (create v d = Inl (ErrBadOwners v) \<longrightarrow> \<not> caller_owns d) \<and>
         (errors_Cause err = Some (ErrNotEmptyDir v) \<longrightarrow>
            getErrorSuggestions env v err =
              ''Encryption can only be setup on empty directories; files'' @ cont
                @ ''cannot be encrypted in-place. Instead, encrypt an empty'' @ cont
                @ ''directory, copy the files into that encrypted directory,'' @ cont
                @ ''and securely delete the originals with "shred".'')\<close>
proof -
  have three: "distinct [ErrPolicyUnlocked v, ErrNotEmptyDir v, ErrBadOwners v] \<and>
         map (Error env) [ErrPolicyUnlocked v, ErrNotEmptyDir v, ErrBadOwners v] =
           [''this file or directory is already unlocked'', ''not an empty directory'',
            ''you do not own this directory'']"
    by (simp add: assms(2) init_vars)
  then have different: "ErrPolicyUnlocked v \<noteq> ErrNotEmptyDir v"
      "ErrPolicyUnlocked v \<noteq> ErrBadOwners v" "ErrNotEmptyDir v \<noteq> ErrBadOwners v"
    by simp_all
  have forward: "(has_policy d \<longrightarrow> create v d = Inl (ErrPolicyUnlocked v)) \<and>
         (\<not> has_policy d \<and> non_empty d \<and> \<not> exempted d \<longrightarrow>
            create v d = Inl (ErrNotEmptyDir v)) \<and>
         (\<not> has_policy d \<and> (non_empty d \<longrightarrow> exempted d) \<and> \<not> caller_owns d \<longrightarrow>
            create v d = Inl (ErrBadOwners v)) \<and>
         (\<not> has_policy d \<and> (non_empty d \<longrightarrow> exempted d) \<and> caller_owns d \<longrightarrow>
            create v d = Inr \<lparr>descriptor = policy_descriptor d, wrap_list = []\<rparr>)"
    by (simp add: create_def)
  have backward: "(create v d = Inl (ErrPolicyUnlocked v) \<longrightarrow> has_policy d) \<and>
         (create v d = Inl (ErrNotEmptyDir v) \<longrightarrow> non_empty d \<and> \<not> exempted d) \<and>
         (create v d = Inl (ErrBadOwners v) \<longrightarrow> \<not> caller_owns d)"
    using different by (auto simp: create_def split: if_splits)
  show ?thesis
    using three forward backward suggestion_of_local(5) [OF assms, of err] by blast
qed

theorem policy_creation_failures_distinct_witness:
  \<open>imports_allocated example_env 8 \<and> example_vars = fst (init example_env 8) \<and>
   [ErrPolicyUnlocked example_vars, ErrNotEmptyDir example_vars, ErrBadOwners example_vars] =
     [fundamental 18 ''this file or directory is already unlocked'',
      fundamental 20 ''not an empty directory'',
      fundamental 19 ''you do not own this directory''] \<and>
   create example_vars
      \<lparr>policy_descriptor = ''0123456789abcdef'', has_policy = False, non_empty = True,
       exempted = False, caller_owns = True\<rparr> =
     Inl (fundamental 20 ''not an empty directory'') \<and>
   getErrorSuggestions example_env example_vars
      (Some (withStack (fundamental 20 ''not an empty directory''))) =
     ''Encryption can only be setup on empty directories; files'' @ cont
       @ ''cannot be encrypted in-place. Instead, encrypt an empty'' @ cont
       @ ''directory, copy the files into that encrypted directory,'' @ cont
       @ ''and securely delete the originals with "shred".''\<close>
proof -
  have \<open>[ErrPolicyUnlocked example_vars, ErrNotEmptyDir example_vars,
          ErrBadOwners example_vars] =
     [fundamental 18 ''this file or directory is already unlocked'',
      fundamental 20 ''not an empty directory'',
      fundamental 19 ''you do not own this directory''] \<and>
   create example_vars
      \<lparr>policy_descriptor = ''0123456789abcdef'', has_policy = False, non_empty = True,
       exempted = False, caller_owns = True\<rparr> =
     Inl (fundamental 20 ''not an empty directory'') \<and>
   getErrorSuggestions example_env example_vars
      (Some (withStack (fundamental 20 ''not an empty directory''))) =
     ''Encryption can only be setup on empty directories; files'' @ cont
       @ ''cannot be encrypted in-place. Instead, encrypt an empty'' @ cont
       @ ''directory, copy the files into that encrypted directory,'' @ cont
       @ ''and securely delete the originals with "shred".''\<close>
    using policy_creation_failures_distinct [OF example_imports_allocated example_vars_def,
        of "\<lparr>policy_descriptor = ''0123456789abcdef'', has_policy = False, non_empty = True,
             exempted = False, caller_owns = True\<rparr>"
           "Some (withStack (fundamental 20 ''not an empty directory''))"]
    by (simp add: example_vars_eq errors_Cause_def)
  with example_imports_allocated example_vars_def show ?thesis by blast
qed

text \<open>
  C7. Each of the four user-input errors has an error value of its own:
  \<^verbatim>\<open>ErrInvalidSource\<close>, \<^verbatim>\<open>ErrPassphraseMismatch\<close>, \<^verbatim>\<open>ErrSpecifyKeyFile\<close> and
  \<^verbatim>\<open>ErrSpecifyProtector\<close>, with the messages of the source. The four are among the sixteen
  top-level error values, and no two of the sixteen are equal.
\<close>

theorem user_input_errors_dedicated:
  assumes "v = fst (init env p0)"
  shows "map (Error env)
           [ErrInvalidSource v, ErrPassphraseMismatch v, ErrSpecifyKeyFile v,
            ErrSpecifyProtector v] =
           [''invalid source type'', ''entered passphrases do not match'',
            ''no key file specified'', ''multiple protectors available''] \<and>
         set [ErrInvalidSource v, ErrPassphraseMismatch v, ErrSpecifyKeyFile v,
              ErrSpecifyProtector v] \<subseteq> set (top_level_errors v) \<and>
         length (top_level_errors v) = 16 \<and>
         distinct (top_level_errors v)"
proof -
  have "distinct (top_level_errors v)"
    unfolding assms by (rule top_level_distinct)
  moreover have "map (Error env)
           [ErrInvalidSource v, ErrPassphraseMismatch v, ErrSpecifyKeyFile v,
            ErrSpecifyProtector v] =
           [''invalid source type'', ''entered passphrases do not match'',
            ''no key file specified'', ''multiple protectors available'']"
    by (simp add: assms init_vars)
  ultimately show ?thesis
    by (simp add: top_level_errors_def)
qed

theorem user_input_errors_dedicated_witness:
  "example_vars = fst (init example_env 8) \<and>
   [ErrInvalidSource example_vars, ErrPassphraseMismatch example_vars,
    ErrSpecifyKeyFile example_vars, ErrSpecifyProtector example_vars] =
     [fundamental 10 ''invalid source type'',
      fundamental 11 ''entered passphrases do not match'',
      fundamental 14 ''no key file specified'',
      fundamental 12 ''multiple protectors available''] \<and>
   distinct (top_level_errors example_vars)"
proof -
  have "[ErrInvalidSource example_vars, ErrPassphraseMismatch example_vars,
    ErrSpecifyKeyFile example_vars, ErrSpecifyProtector example_vars] =
     [fundamental 10 ''invalid source type'',
      fundamental 11 ''entered passphrases do not match'',
      fundamental 14 ''no key file specified'',
      fundamental 12 ''multiple protectors available'']"
    by (simp add: example_vars_eq)
  with example_vars_def user_input_errors_dedicated [OF example_vars_def]
  show ?thesis by blast
qed

text \<open>
  C8. For every context and every error that is not nil, \<^verbatim>\<open>newExitError\<close> returns a
  \<^verbatim>\<open>cli.ExitError\<close> whose exit code is \<^verbatim>\<open>failureExitCode\<close>; \<^verbatim>\<open>usageError.ExitCode\<close> returns
  \<^verbatim>\<open>failureExitCode\<close> for every usage error and every state; and \<^verbatim>\<open>failureExitCode\<close> is 1,
  which is not zero.
\<close>

theorem failures_exit_nonzero:
  "(\<exists>message. newExitError env v c (Some e) = Return (ExitError message failureExitCode) \<and>
       ExitError_ExitCode (ExitError message failureExitCode) = Some 1) \<and>
   fst (ExitCode env u s) = 1 \<and>
   failureExitCode = 1 \<and> failureExitCode \<noteq> 0"
proof -
  have "fst (ExitCode env u s) = 1"
    by (cases u) (simp add: failureExitCode_def split: prod.splits)
  then show ?thesis
    by (simp add: newExitError_def Let_def failureExitCode_def)
qed

theorem failures_exit_nonzero_witness:
  "newExitError example_env example_vars example_context
      (Some (withMessage (ErrBadOwners example_vars) ''/mnt/data'')) =
     Return (ExitError
       (''fscrypt unlock: /mnt/data: you do not own this directory''
          @ [CHR 0x0A, CHR 0x0A]
          @ ''Encryption can only be setup on directories you own,'' @ cont
          @ ''even if you have write permission for the directory.'') 1) \<and>
   fst (ExitCode example_env (usageError example_context ''expected 1 argument, got 0'')
          example_world) = 1"
  using failures_exit_nonzero [of example_env example_vars example_context
      "withMessage (ErrBadOwners example_vars) ''/mnt/data''"
      "usageError example_context ''expected 1 argument, got 0''" example_world]
  by (simp add: newExitError_def getErrorSuggestions_def errors_Cause_def getFullName_def
        example_vars_eq example_env_def example_context_def failureExitCode_def)

text \<open>
  C9. \<^verbatim>\<open>checkRequiredFlags\<close> returns nil exactly when every flag of the list has a nonempty
  value. Otherwise the list splits at the first flag whose value is empty -- every flag
  before it has a nonempty value -- and the result is the usage error for the given
  context whose message names that flag: "required flag", its short display, "not
  provided".
\<close>

theorem checkRequiredFlags_first_empty:
  "(checkRequiredFlags env c flags = None \<longleftrightarrow> (\<forall>flag \<in> set flags. Value env flag \<noteq> '''')) \<and>
   (checkRequiredFlags env c flags \<noteq> None \<longrightarrow>
     (\<exists>pre flag post.
        flags = pre @ flag # post \<and> (\<forall>f \<in> set pre. Value env f \<noteq> '''') \<and>
        Value env flag = '''' \<and>
        checkRequiredFlags env c flags =
          Some (UsageError (usageError c
            (''required flag '' @ shortDisplay env flag @ '' not provided'')))))"
  using checkRequiredFlags_nil_iff [of env c flags] checkRequiredFlags_first [of env c flags]
  by blast

theorem checkRequiredFlags_first_empty_witness:
  "checkRequiredFlags example_env example_context
      [(''name'', ''backup''), (''protector'', ''''), (''key'', '''')] =
     Some (UsageError (usageError example_context ''required flag --protector not provided'')) \<and>
   checkRequiredFlags example_env example_context
      [(''name'', ''backup''), (''protector'', ''7ab3'')] = None"
  using checkRequiredFlags_first_empty [of example_env example_context
      "[(''name'', ''backup''), (''protector'', ''''), (''key'', '''')]"]
    checkRequiredFlags_first_empty [of example_env example_context
      "[(''name'', ''backup''), (''protector'', ''7ab3'')]"]
  by (simp add: example_env_def)

text \<open>
  C10. \<^verbatim>\<open>usageError.ExitCode\<close> returns with the stored context, and the message, exactly
  as they were on entry. In between, the first step points \<^verbatim>\<open>c.App.Writer\<close> to a buffer
  that did not exist before and changes no other field; the help is printed with the
  context in that state; and the last step, whatever the help step wrote, puts the
  writer of the entry back, which gives the context of the entry.
\<close>

theorem ExitCode_restores_context:
  "fst (snd (ExitCode env (usageError c message) s)) = usageError c message \<and>
   (case ExitCode_redirect c s of
      (buf, oldWriter, c', s') \<Rightarrow>
        buf = next_buffer s \<and> next_buffer s' = Suc buf \<and>
        oldWriter = Writer (App c) \<and>
        Writer (App c') = BufferPtr buf \<and>
        App.HelpName (App c') = App.HelpName (App c) \<and> Command c' = Command c \<and>
        fst (ExitCode_restore buf oldWriter c' (ExitCode_help env c' s')) = c)"
  by (auto simp: ExitCode_redirect_def ExitCode_restore_def new_Buffer_def Let_def
           split: prod.splits)

theorem ExitCode_restores_context_witness:
  "(case ExitCode example_env (usageError example_context ''expected 1 argument, got 0'')
           example_world of
      (code, u, s) \<Rightarrow>
        code = 1 \<and> u = usageError example_context ''expected 1 argument, got 0'' \<and>
        Writer (App example_context) = Stream 1 \<and>
        streams s 1 = ''unlock'' @ [CHR 0x0A] \<and> buffers s 0 = [] \<and> next_buffer s = 1)"
  using ExitCode_restores_context [of example_env example_context
      "''expected 1 argument, got 0''" example_world]
  by (simp add: example_env_def example_context_def example_world_def
        ExitCode_redirect_def ExitCode_help_def ExitCode_restore_def new_Buffer_def
        ShowAppHelp_def ShowCommandHelp_def Write_def Buffer_ReadBytes_def
        Buffer_WriteTo_def getFullName_def failureExitCode_def Let_def)

end
